theory Spec2Isabelle
  imports Complex_Main "HOL-Library.Word"
begin

unbundle bit_operations_syntax

section \<open>Python values and exceptions\<close>

text \<open>
  The setters of \<^verbatim>\<open>adxl343.py\<close> are annotated \<^verbatim>\<open>value: int\<close>, but Python does not
  enforce the annotation, and the getters hand out strings. A caller's value is therefore
  an integer or a string. Python's \<^verbatim>\<open>bool\<close> is a subtype of \<^verbatim>\<open>int\<close> with
  \<^verbatim>\<open>True == 1\<close>, so the \<^verbatim>\<open>True\<close> the constructor stores is the integer 1.
  Python floats are modelled as reals: rounding is not part of the model.
\<close>

datatype pyval = PyInt int | PyStr string

datatype error =
    RuntimeError string
  | ValueError string
  | KeyError
  | IndexError
  | TypeError
  | AttributeError

text \<open>\<^verbatim>\<open>value == c\<close> for an integer constant \<^verbatim>\<open>c\<close>: a string never equals an integer.\<close>

fun py_eq_int :: "pyval \<Rightarrow> int \<Rightarrow> bool" where
  "py_eq_int (PyInt i) c = (i = c)"
| "py_eq_int (PyStr t) c = False"

text \<open>\<^verbatim>\<open>value in (c1, ..., cn)\<close>: the tuple is searched from the left with \<^verbatim>\<open>==\<close>.\<close>

fun py_in :: "pyval \<Rightarrow> int list \<Rightarrow> bool" where
  "py_in v [] = False"
| "py_in v (c # cs) = (if py_eq_int v c then True else py_in v cs)"

text \<open>\<^verbatim>\<open>values[i]\<close> on a tuple: a negative index counts from the end, anything out of
  range raises IndexError.\<close>

definition tuple_index :: "'a list \<Rightarrow> int \<Rightarrow> error + 'a" where
  "tuple_index xs i =
     (if 0 \<le> i \<and> i < int (length xs) then Inr (xs ! nat i)
      else if i < 0 \<and> - int (length xs) \<le> i then Inr (xs ! nat (int (length xs) + i))
      else Inl IndexError)"

section \<open>Module constants\<close>

definition STANDARD_GRAVITY :: real where "STANDARD_GRAVITY = 9.80665"
definition REG_WHOAMI :: "8 word" where "REG_WHOAMI = 0x00"
definition POWER_CTL :: "8 word" where "POWER_CTL = 0x2D"
definition DATA_FORMAT :: "8 word" where "DATA_FORMAT = 0x31"
definition ACC :: "8 word" where "ACC = 0x32"

definition STANDBY :: int where "STANDBY = 0"
definition READY :: int where "READY = 1"
definition measurement_mode_values :: "int list" where
  "measurement_mode_values = [STANDBY, READY]"

definition LOW_RES :: int where "LOW_RES = 0"
definition HIGH_RES :: int where "HIGH_RES = 1"
definition resolution_mode_values :: "int list" where
  "resolution_mode_values = [LOW_RES, HIGH_RES]"

definition RANGE_2 :: int where "RANGE_2 = 0"
definition RANGE_4 :: int where "RANGE_4 = 1"
definition RANGE_8 :: int where "RANGE_8 = 2"
definition RANGE_16 :: int where "RANGE_16 = 3"
definition acceleration_range_values :: "int list" where
  "acceleration_range_values = [RANGE_2, RANGE_4, RANGE_8, RANGE_16]"

section \<open>The device, the driver object and the trace of effects\<close>

text \<open>
  The state is the device's register file (8-bit addresses, 8-bit registers), the driver
  attribute \<^verbatim>\<open>_cached_resolution\<close> (\<open>None\<close> while \<^verbatim>\<open>__init__\<close> has not assigned it)
  and a log of every effect in the order it happens: bus reads, bus writes and assignments
  to the cache. An exception does not roll anything back, so every operation returns its
  outcome together with the state reached when it returned or raised.
\<close>

datatype event =
    ReadBlock "8 word" nat
  | ReadBits "8 word" nat nat
  | WriteBits "8 word" nat nat int
  | CacheSet real

record state =
  regs :: "8 word \<Rightarrow> 8 word"
  cached_resolution :: "real option"
  log :: "event list"

definition fresh :: "(8 word \<Rightarrow> 8 word) \<Rightarrow> state" where
  "fresh r = \<lparr>regs = r, cached_resolution = None, log = []\<rparr>"

definition emit :: "event \<Rightarrow> state \<Rightarrow> state" where
  "emit e s = s\<lparr>log := log s @ [e]\<rparr>"

subsection \<open>The register bus\<close>

text \<open>
  Modelled from the spec: the register descriptors (\<^verbatim>\<open>RWBits\<close>, \<^verbatim>\<open>Struct\<close>,
  \<^verbatim>\<open>ROUnaryStruct\<close>) belong to the library \<^verbatim>\<open>adafruit_register\<close>, whose code
  is not part of this repository. The spec
  describes the collaborator as reading and writing an N-bit field at a given register
  address, \<^verbatim>\<open>read_bits(address, width, offset)\<close> and
  \<^verbatim>\<open>write_bits(address, width, offset, value)\<close>; a write replaces the field and keeps
  the other bits of the register.
\<close>

definition bit_mask :: "nat \<Rightarrow> nat \<Rightarrow> 8 word" where
  "bit_mask width offset = push_bit offset (mask width)"

definition field :: "(8 word \<Rightarrow> 8 word) \<Rightarrow> 8 word \<Rightarrow> nat \<Rightarrow> nat \<Rightarrow> int" where
  "field r addr width offset = uint (drop_bit offset (r addr AND bit_mask width offset))"

definition read_bits :: "8 word \<Rightarrow> nat \<Rightarrow> nat \<Rightarrow> state \<Rightarrow> int \<times> state" where
  "read_bits addr width offset s =
     (field (regs s) addr width offset, emit (ReadBits addr width offset) s)"

definition write_bits :: "8 word \<Rightarrow> nat \<Rightarrow> nat \<Rightarrow> int \<Rightarrow> state \<Rightarrow> state" where
  "write_bits addr width offset v s =
     emit (WriteBits addr width offset v)
       (s\<lparr>regs := (regs s)(addr :=
            (regs s addr AND NOT (bit_mask width offset))
              OR push_bit offset (take_bit width (word_of_int v)))\<rparr>)"

text \<open>
  Modelled from the spec: assigning to an \<^verbatim>\<open>RWBits\<close> attribute shifts the value into
  place and writes the field. Shifting a string raises TypeError before the bus is used.
\<close>

definition rwbits_set ::
  "8 word \<Rightarrow> nat \<Rightarrow> nat \<Rightarrow> pyval \<Rightarrow> state \<Rightarrow> (error + unit) \<times> state" where
  "rwbits_set addr width offset v s =
     (case v of
        PyInt i \<Rightarrow> (Inr (), write_bits addr width offset i s)
      | PyStr t \<Rightarrow> (Inl TypeError, s))"

text \<open>
  Modelled from the spec: the identity register is one unsigned byte at address 0x00,
  read in one transaction.
\<close>

definition device_id :: "state \<Rightarrow> int \<times> state" where
  "device_id s = (uint (regs s REG_WHOAMI), emit (ReadBlock REG_WHOAMI 1) s)"




subsection \<open>The class ADXL343\<close>

definition set_cached_resolution :: "real \<Rightarrow> state \<Rightarrow> state" where
  "set_cached_resolution c s = emit (CacheSet c) (s\<lparr>cached_resolution := Some c\<rparr>)"

text \<open>The dictionary literal \<^verbatim>\<open>{0: 0.004, 1: 0.008, 2: 0.016, 3: 0.031}\<close> of both setters.\<close>

definition res_values :: "int \<rightharpoonup> real" where
  "res_values = [0 \<mapsto> 0.004, 1 \<mapsto> 0.008, 2 \<mapsto> 0.016, 3 \<mapsto> 0.031]"

text \<open>\<^verbatim>\<open>res_values[value]\<close>: a key that is not in the dictionary raises KeyError.\<close>

definition res_values_at :: "pyval \<Rightarrow> error + real" where
  "res_values_at v =
     (case v of
        PyInt i \<Rightarrow> (case res_values i of Some c \<Rightarrow> Inr c | None \<Rightarrow> Inl KeyError)
      | PyStr t \<Rightarrow> Inl KeyError)"

text \<open>
  \<^verbatim>\<open>__init__\<close>, lines 94 to 102, run on the state of a driver not yet set up. Line 95
  stores the handle of the bus; the device it addresses is the register file of the state.
\<close>

definition init :: "state \<Rightarrow> (error + unit) \<times> state" where
  "init s =
     (let (ident, s1) = device_id s in
      if ident \<noteq> 0xE5 then (Inl (RuntimeError ''Failed to find ADXL343''), s1)
      else
        (case rwbits_set POWER_CTL 1 3 (PyInt 1) s1 of
           (Inl e, s2) \<Rightarrow> (Inl e, s2)
         | (Inr u, s2) \<Rightarrow>
             (case rwbits_set DATA_FORMAT 1 3 (PyInt 1) s2 of
                (Inl e, s3) \<Rightarrow> (Inl e, s3)
              | (Inr u, s3) \<Rightarrow> (Inr (), set_cached_resolution 0.004 s3))))"

text \<open>The property \<^verbatim>\<open>measurement_mode\<close>: getter (lines 104 to 121) and setter (123 to 127).\<close>

definition measurement_mode :: "state \<Rightarrow> (error + string) \<times> state" where
  "measurement_mode s =
     (let (b, s1) = read_bits POWER_CTL 1 3 s
      in (tuple_index [''STANDBY'', ''READY''] b, s1))"

definition set_measurement_mode :: "pyval \<Rightarrow> state \<Rightarrow> (error + unit) \<times> state" where
  "set_measurement_mode v s =
     (if \<not> py_in v measurement_mode_values
      then (Inl (ValueError ''Value must be a valid measurement_mode setting''), s)
      else rwbits_set POWER_CTL 1 3 v s)"


text \<open>The property \<^verbatim>\<open>acceleration_range\<close>: getter (lines 141 to 159) and setter
  (161 to 171).\<close>

definition acceleration_range :: "state \<Rightarrow> (error + string) \<times> state" where
  "acceleration_range s =
     (let (b, s1) = read_bits DATA_FORMAT 2 0 s
      in (tuple_index [''RANGE_2'', ''RANGE_4'', ''RANGE_8'', ''RANGE_16''] b, s1))"

definition set_acceleration_range :: "pyval \<Rightarrow> state \<Rightarrow> (error + unit) \<times> state" where
  "set_acceleration_range v s =
     (if \<not> py_in v acceleration_range_values
      then (Inl (ValueError ''Value must be a valid acceleration_range setting''), s)
      else
        (let (rm, s1) = read_bits DATA_FORMAT 1 3 s in
         if rm = 0 then
           (case res_values_at v of
              Inl e \<Rightarrow> (Inl e, s1)
            | Inr c \<Rightarrow> rwbits_set DATA_FORMAT 2 0 v (set_cached_resolution c s1))
         else rwbits_set DATA_FORMAT 2 0 v (set_cached_resolution 0.004 s1)))"

text \<open>The property \<^verbatim>\<open>resolution_mode\<close>: getter (lines 173 to 190) and setter
  (192 to 201).\<close>

definition resolution_mode :: "state \<Rightarrow> (error + string) \<times> state" where
  "resolution_mode s =
     (let (b, s1) = read_bits DATA_FORMAT 1 3 s
      in (tuple_index [''LOW_RES'', ''HIGH_RES''] b, s1))"

definition set_resolution_mode :: "pyval \<Rightarrow> state \<Rightarrow> (error + unit) \<times> state" where
  "set_resolution_mode v s =
     (if \<not> py_in v resolution_mode_values
      then (Inl (ValueError ''Value must be a valid resolution_mode setting''), s)
      else
        (case rwbits_set DATA_FORMAT 1 3 v s of
           (Inl e, s1) \<Rightarrow> (Inl e, s1)
         | (Inr u, s1) \<Rightarrow>
             if py_eq_int v 0 then
               (let (ar, s2) = read_bits DATA_FORMAT 2 0 s1 in
                case res_values_at (PyInt ar) of
                  Inl e \<Rightarrow> (Inl e, s2)
                | Inr c \<Rightarrow> (Inr (), set_cached_resolution c s2))
             else (Inr (), set_cached_resolution 0.004 s1)))"

section \<open>The sequences of calls a program can make\<close>





section \<open>The resolution table as the specification states it\<close>

text \<open>
  The specification's table: 0.004 g per count whenever the resolution mode is HIGH_RES;
  in LOW_RES 0.004, 0.008, 0.016 and 0.031 for RANGE_2, RANGE_4, RANGE_8 and RANGE_16.
  The committed settings are the bit fields of the device's DATA_FORMAT register.
\<close>

definition spec_resolution :: "int \<Rightarrow> int \<Rightarrow> real option" where
  "spec_resolution m g =
     (if m = HIGH_RES then Some 0.004
      else if m = LOW_RES then
        (if g = RANGE_2 then Some 0.004
         else if g = RANGE_4 then Some 0.008
         else if g = RANGE_8 then Some 0.016
         else if g = RANGE_16 then Some 0.031
         else None)
      else None)"

definition committed_resolution_mode :: "state \<Rightarrow> int" where
  "committed_resolution_mode s = field (regs s) DATA_FORMAT 1 3"

definition committed_range :: "state \<Rightarrow> int" where
  "committed_range s = field (regs s) DATA_FORMAT 2 0"

definition committed_measurement_mode :: "state \<Rightarrow> int" where
  "committed_measurement_mode s = field (regs s) POWER_CTL 1 3"

definition cache_consistent :: "state \<Rightarrow> bool" where
  "cache_consistent s =
     (case cached_resolution s of
        None \<Rightarrow> False
      | Some c \<Rightarrow>
          spec_resolution (committed_resolution_mode s) (committed_range s) = Some c)"

section \<open>Order of effects\<close>

text \<open>
  The effects of one call are the events it appends to the log. An event of one kind
  happens before the events of another kind when the second kind occurs at all and the
  first occurrence of it is preceded by an event of the first kind.
\<close>

fun is_cache_set :: "event \<Rightarrow> bool" where
  "is_cache_set (CacheSet c) = True"
| "is_cache_set e = False"

fun is_bus_write :: "event \<Rightarrow> bool" where
  "is_bus_write (WriteBits a w off v) = True"
| "is_bus_write e = False"

definition effects :: "state \<Rightarrow> state \<Rightarrow> event list" where
  "effects s s' = drop (length (log s)) (log s')"

definition happens_before :: "(event \<Rightarrow> bool) \<Rightarrow> (event \<Rightarrow> bool) \<Rightarrow> event list \<Rightarrow> bool" where
  "happens_before P Q es =
     (list_ex Q es \<and> list_ex P (takeWhile (\<lambda>e. \<not> Q e) es))"

section \<open>Register contents for a given sample\<close>


section \<open>Bit fields of a register\<close>

lemmas consts_defs =
  STANDARD_GRAVITY_def REG_WHOAMI_def POWER_CTL_def DATA_FORMAT_def ACC_def
  STANDBY_def READY_def measurement_mode_values_def
  LOW_RES_def HIGH_RES_def resolution_mode_values_def
  RANGE_2_def RANGE_4_def RANGE_8_def RANGE_16_def acceleration_range_values_def

lemma bit_bit_mask:
  "bit (bit_mask w off) n \<longleftrightarrow> off \<le> n \<and> n < off + w \<and> n < 8"
  unfolding bit_mask_def by (auto simp: bit_simps)

lemma field_bits_written:
  "w + off \<le> 8 \<Longrightarrow>
   drop_bit off (((x AND NOT (bit_mask w off)) OR push_bit off (take_bit w y))
     AND bit_mask w off) = take_bit w y"
  by (rule bit_word_eqI) (auto simp: bit_simps bit_bit_mask)

lemma field_bits_kept:
  "off + w \<le> off' \<or> off' + w' \<le> off \<Longrightarrow>
   ((x AND NOT (bit_mask w off)) OR push_bit off (take_bit w y)) AND bit_mask w' off'
     = x AND bit_mask w' off'"
  by (rule bit_word_eqI) (auto simp: bit_simps bit_bit_mask)

lemma uint_take_bit_byte:
  "uint (take_bit n (word_of_int i :: 8 word)) = take_bit (min n 8) i"
  by (simp add: unsigned_take_bit_eq uint_word_of_int_eq)

lemma regs_write_bits:
  "regs (write_bits a w off v s) =
     (regs s)(a := (regs s a AND NOT (bit_mask w off))
                     OR push_bit off (take_bit w (word_of_int v)))"
  by (simp add: write_bits_def emit_def)

lemma cached_resolution_write_bits [simp]:
  "cached_resolution (write_bits a w off v s) = cached_resolution s"
  by (simp add: write_bits_def emit_def)

lemma log_write_bits [simp]:
  "log (write_bits a w off v s) = log s @ [WriteBits a w off v]"
  by (simp add: write_bits_def emit_def)

lemma field_write_same:
  assumes "w + off \<le> 8"
  shows "field (regs (write_bits a w off v s)) a w off = v mod 2 ^ w"
proof -
  have "field (regs (write_bits a w off v s)) a w off
          = uint (take_bit w (word_of_int v :: 8 word))"
    unfolding field_def regs_write_bits fun_upd_same field_bits_written [OF assms] ..
  also have "\<dots> = take_bit (min w 8) v"
    by (rule uint_take_bit_byte)
  also have "\<dots> = v mod 2 ^ w"
    using assms by (simp add: take_bit_eq_mod min_def)
  finally show ?thesis .
qed

lemma field_write_other_field:
  assumes "off + w \<le> off' \<or> off' + w' \<le> off"
  shows "field (regs (write_bits a w off v s)) a w' off' = field (regs s) a w' off'"
  unfolding field_def regs_write_bits fun_upd_same field_bits_kept [OF assms] ..

lemma field_write_other_reg:
  "a' \<noteq> a \<Longrightarrow>
   field (regs (write_bits a w off v s)) a' w' off' = field (regs s) a' w' off'"
  by (simp add: field_def regs_write_bits)

lemma field_range: "0 \<le> field r a w off \<and> field r a w off < 2 ^ w"
proof -
  have "drop_bit off (r a AND bit_mask w off)
          = take_bit w (drop_bit off (r a AND bit_mask w off))"
    by (rule bit_word_eqI) (auto simp: bit_simps bit_bit_mask)
  then have "field r a w off = uint (take_bit w (drop_bit off (r a AND bit_mask w off)))"
    unfolding field_def by simp
  also have "\<dots> = take_bit w (uint (drop_bit off (r a AND bit_mask w off)))"
    by (simp only: unsigned_take_bit_eq)
  finally show ?thesis
    by (simp add: take_bit_eq_mod)
qed

section \<open>Effects of the single operations\<close>



lemma regs_emit [simp]: "regs (emit e s) = regs s"
  and cached_resolution_emit [simp]: "cached_resolution (emit e s) = cached_resolution s"
  and log_emit [simp]: "log (emit e s) = log s @ [e]"
  by (simp_all add: emit_def)

lemma regs_set_cached_resolution [simp]: "regs (set_cached_resolution c s) = regs s"
  and cached_set_cached_resolution [simp]:
    "cached_resolution (set_cached_resolution c s) = Some c"
  and log_set_cached_resolution [simp]:
    "log (set_cached_resolution c s) = log s @ [CacheSet c]"
  by (simp_all add: set_cached_resolution_def)

subsection \<open>Domains of the settings and the resolution table\<close>

lemma py_in_measurement_mode_values:
  "py_in v measurement_mode_values \<longleftrightarrow> v = PyInt 0 \<or> v = PyInt 1"
  by (cases v) (auto simp: consts_defs)

lemma py_in_resolution_mode_values:
  "py_in v resolution_mode_values \<longleftrightarrow> v = PyInt 0 \<or> v = PyInt 1"
  by (cases v) (auto simp: consts_defs)

lemma py_in_acceleration_range_values:
  "py_in v acceleration_range_values \<longleftrightarrow> v = PyInt 0 \<or> v = PyInt 1 \<or> v = PyInt 2 \<or> v = PyInt 3"
  by (cases v) (auto simp: consts_defs)

lemma field_1bit: "field r a 1 off = 0 \<or> field r a 1 off = 1"
  using field_range [of r a 1 off] by auto

lemma field_2bit: "field r a 2 off = 0 \<or> field r a 2 off = 1 \<or> field r a 2 off = 2 \<or> field r a 2 off = 3"
  using field_range [of r a 2 off] by auto

lemma res_values_at_spec:
  "i = 0 \<or> i = 1 \<or> i = 2 \<or> i = 3 \<Longrightarrow>
   res_values_at (PyInt i) = Inr c \<longleftrightarrow> spec_resolution LOW_RES i = Some c"
  by (auto simp: res_values_at_def res_values_def spec_resolution_def consts_defs)

lemma res_values_simps:
  "res_values 0 = Some 0.004" "res_values 1 = Some 0.008"
  "res_values 2 = Some 0.016" "res_values 3 = Some 0.031"
  by (simp_all add: res_values_def)

lemma res_values_defined:
  "i = 0 \<or> i = 1 \<or> i = 2 \<or> i = 3 \<Longrightarrow> res_values i \<noteq> None"
  by (elim disjE; simp only: res_values_simps; simp)

lemma res_values_at_defined:
  "i = 0 \<or> i = 1 \<or> i = 2 \<or> i = 3 \<Longrightarrow> \<exists>c. res_values_at (PyInt i) = Inr c"
  using res_values_defined [of i] by (cases "res_values i") (simp_all add: res_values_at_def)

lemma spec_resolution_high: "spec_resolution 1 g = Some 0.004"
  by (simp add: spec_resolution_def consts_defs)

subsection \<open>What a write commits\<close>

lemma DATA_FORMAT_neq_POWER_CTL: "DATA_FORMAT \<noteq> POWER_CTL"
  by (simp add: consts_defs)

lemma committed_write_power_ctl:
  "committed_resolution_mode (write_bits POWER_CTL w off v s) = committed_resolution_mode s"
  "committed_range (write_bits POWER_CTL w off v s) = committed_range s"
  by (simp_all add: committed_resolution_mode_def committed_range_def
      field_write_other_reg DATA_FORMAT_neq_POWER_CTL)

lemma committed_write_range:
  "committed_resolution_mode (write_bits DATA_FORMAT 2 0 v s) = committed_resolution_mode s"
  "committed_range (write_bits DATA_FORMAT 2 0 v s) = v mod 4"
  by (simp_all add: committed_resolution_mode_def committed_range_def
      field_write_other_field field_write_same)

lemma committed_write_mode:
  "committed_resolution_mode (write_bits DATA_FORMAT 1 3 v s) = v mod 2"
  "committed_range (write_bits DATA_FORMAT 1 3 v s) = committed_range s"
  by (simp_all add: committed_resolution_mode_def committed_range_def
      field_write_other_field field_write_same)

lemmas committed_write_mode_Suc = committed_write_mode [unfolded One_nat_def]

lemma committed_emit [simp]:
  "committed_resolution_mode (emit e s) = committed_resolution_mode s"
  "committed_range (emit e s) = committed_range s"
  by (simp_all add: committed_resolution_mode_def committed_range_def)

lemma committed_set_cached [simp]:
  "committed_resolution_mode (set_cached_resolution c s) = committed_resolution_mode s"
  "committed_range (set_cached_resolution c s) = committed_range s"
  by (simp_all add: committed_resolution_mode_def committed_range_def)

subsection \<open>The setters, case by case\<close>

lemma set_measurement_mode_rejects:
  "\<not> py_in v measurement_mode_values \<Longrightarrow>
   set_measurement_mode v s = (Inl (ValueError ''Value must be a valid measurement_mode setting''), s)"
  by (simp add: set_measurement_mode_def)

lemma set_measurement_mode_accepts:
  "i = 0 \<or> i = 1 \<Longrightarrow>
   set_measurement_mode (PyInt i) s = (Inr (), write_bits POWER_CTL 1 3 i s)"
  by (auto simp add: set_measurement_mode_def py_in_measurement_mode_values rwbits_set_def)


lemma set_acceleration_range_rejects:
  "\<not> py_in v acceleration_range_values \<Longrightarrow>
   set_acceleration_range v s = (Inl (ValueError ''Value must be a valid acceleration_range setting''), s)"
  by (simp add: set_acceleration_range_def)

lemma set_acceleration_range_low:
  assumes "i = 0 \<or> i = 1 \<or> i = 2 \<or> i = 3" and "committed_resolution_mode s = 0"
    and "res_values_at (PyInt i) = Inr c"
  shows "set_acceleration_range (PyInt i) s =
    (Inr (), write_bits DATA_FORMAT 2 0 i (set_cached_resolution c (emit (ReadBits DATA_FORMAT 1 3) s)))"
  using assms
  by (simp add: set_acceleration_range_def py_in_acceleration_range_values read_bits_def rwbits_set_def
       committed_resolution_mode_def)

lemma set_acceleration_range_high:
  assumes "i = 0 \<or> i = 1 \<or> i = 2 \<or> i = 3" and "committed_resolution_mode s \<noteq> 0"
  shows "set_acceleration_range (PyInt i) s =
    (Inr (), write_bits DATA_FORMAT 2 0 i (set_cached_resolution 0.004 (emit (ReadBits DATA_FORMAT 1 3) s)))"
  using assms
  by (simp add: set_acceleration_range_def py_in_acceleration_range_values read_bits_def rwbits_set_def
       committed_resolution_mode_def)



lemma set_resolution_mode_rejects:
  "\<not> py_in v resolution_mode_values \<Longrightarrow>
   set_resolution_mode v s = (Inl (ValueError ''Value must be a valid resolution_mode setting''), s)"
  by (simp add: set_resolution_mode_def)

lemma set_resolution_mode_low:
  assumes "res_values_at (PyInt (committed_range s)) = Inr c"
  shows "set_resolution_mode (PyInt 0) s =
    (Inr (), set_cached_resolution c (emit (ReadBits DATA_FORMAT 2 0) (write_bits DATA_FORMAT 1 3 0 s)))"
  using assms
  by (simp add: set_resolution_mode_def py_in_resolution_mode_values read_bits_def rwbits_set_def
       committed_range_def field_write_other_field)

lemma set_resolution_mode_high:
  "set_resolution_mode (PyInt 1) s =
    (Inr (), set_cached_resolution 0.004 (write_bits DATA_FORMAT 1 3 1 s))"
  by (simp add: set_resolution_mode_def py_in_resolution_mode_values rwbits_set_def)

lemma committed_range_cases:
  "committed_range s = 0 \<or> committed_range s = 1 \<or> committed_range s = 2 \<or> committed_range s = 3"
  unfolding committed_range_def by (rule field_2bit)

lemma committed_resolution_mode_cases:
  "committed_resolution_mode s = 0 \<or> committed_resolution_mode s = 1"
  unfolding committed_resolution_mode_def by (rule field_1bit)


subsection \<open>The constructor\<close>

lemma uint_byte_eq_229: "uint (x :: 8 word) \<noteq> 229 \<longleftrightarrow> x \<noteq> 229"
  by (simp add: word_uint_eq_iff)

lemma init_fails:
  "regs s REG_WHOAMI \<noteq> 0xE5 \<Longrightarrow>
   init s = (Inl (RuntimeError ''Failed to find ADXL343''), emit (ReadBlock REG_WHOAMI 1) s)"
  by (simp add: init_def device_id_def uint_byte_eq_229)

lemma init_succeeds:
  "regs s REG_WHOAMI = 0xE5 \<Longrightarrow>
   init s = (Inr (), set_cached_resolution 0.004
      (write_bits DATA_FORMAT 1 3 1 (write_bits POWER_CTL 1 3 1 (emit (ReadBlock REG_WHOAMI 1) s))))"
  by (simp add: init_def device_id_def rwbits_set_def)


subsection \<open>Preservation of the invariant\<close>


lemma cache_consistent_emit [simp]: "cache_consistent (emit e s) = cache_consistent s"
  by (simp add: cache_consistent_def split: option.splits)



subsection \<open>Outcomes of the setters\<close>

lemma effects_append [simp]: "log s' = log s @ es \<Longrightarrow> effects s s' = es"
  by (simp add: effects_def)

lemma or_after_clear: "((x :: 8 word) AND NOT m) OR m = x OR m"
  by (rule bit_word_eqI) (auto simp: bit_simps)

lemma set_bit_field_one:
  "((x :: 8 word) AND NOT (bit_mask (Suc 0) 3)) OR 8 = set_bit 3 x"
proof -
  have m: "bit_mask (Suc 0) 3 = 8"
    by (simp add: bit_mask_def)
  have p: "push_bit 3 (1 :: 8 word) = 8"
    by simp
  show ?thesis
    unfolding m set_bit_eq_or p by (rule or_after_clear)
qed

lemma set_measurement_mode_fst:
  "fst (set_measurement_mode v s) =
     (if py_in v measurement_mode_values then Inr ()
      else Inl (ValueError ''Value must be a valid measurement_mode setting''))"
  by (auto simp: set_measurement_mode_rejects set_measurement_mode_accepts
      py_in_measurement_mode_values)

lemma set_resolution_mode_fst:
  "fst (set_resolution_mode v s) =
     (if py_in v resolution_mode_values then Inr ()
      else Inl (ValueError ''Value must be a valid resolution_mode setting''))"
proof (cases "py_in v resolution_mode_values")
  case False
  then show ?thesis by (simp add: set_resolution_mode_rejects)
next
  case True
  from res_values_at_defined [OF committed_range_cases [of s]] obtain c
    where c: "res_values_at (PyInt (committed_range s)) = Inr c" by blast
  from True have "v = PyInt 0 \<or> v = PyInt 1"
    by (simp add: py_in_resolution_mode_values)
  then show ?thesis
    using True by (auto simp: set_resolution_mode_low [OF c] set_resolution_mode_high)
qed

lemma set_acceleration_range_fst:
  "fst (set_acceleration_range v s) =
     (if py_in v acceleration_range_values then Inr ()
      else Inl (ValueError ''Value must be a valid acceleration_range setting''))"
proof (cases "py_in v acceleration_range_values")
  case False
  then show ?thesis by (simp add: set_acceleration_range_rejects)
next
  case True
  then obtain i where v: "v = PyInt i" and i: "i = 0 \<or> i = 1 \<or> i = 2 \<or> i = 3"
    by (auto simp: py_in_acceleration_range_values)
  from res_values_at_defined [OF i] obtain c
    where c: "res_values_at (PyInt i) = Inr c" by blast
  show ?thesis
    using True unfolding v
    by (cases "committed_resolution_mode s = 0")
       (simp_all add: set_acceleration_range_low [OF i _ c] set_acceleration_range_high [OF i])
qed

lemma domains:
  "py_in v measurement_mode_values \<longleftrightarrow> v \<in> {PyInt STANDBY, PyInt READY}"
  "py_in v resolution_mode_values \<longleftrightarrow> v \<in> {PyInt LOW_RES, PyInt HIGH_RES}"
  "py_in v acceleration_range_values \<longleftrightarrow>
     v \<in> {PyInt RANGE_2, PyInt RANGE_4, PyInt RANGE_8, PyInt RANGE_16}"
  by (cases v; auto simp: consts_defs)+

lemma committed_measurement_write:
  "committed_measurement_mode (write_bits POWER_CTL 1 3 v s) = v mod 2"
  "a \<noteq> POWER_CTL \<Longrightarrow> committed_measurement_mode (write_bits a w off v s) = committed_measurement_mode s"
  by (simp_all add: committed_measurement_mode_def field_write_same field_write_other_reg)

lemma committed_measurement_other [simp]:
  "committed_measurement_mode (emit e s) = committed_measurement_mode s"
  "committed_measurement_mode (set_cached_resolution c s) = committed_measurement_mode s"
  by (simp_all add: committed_measurement_mode_def)

subsection \<open>Decoding the raw sample\<close>




subsection \<open>Writing the value a field already has\<close>






subsection \<open>The getters\<close>

lemma py_in_string [simp]: "py_in (PyStr n) cs = False"
  by (induction cs) simp_all

lemma tuple_index_bit:
  "i = 0 \<or> i = 1 \<Longrightarrow> tuple_index [a, b] i = Inr (if i = 0 then a else b)"
  by (auto simp: tuple_index_def)

lemma tuple_index_two_bits:
  "i = 0 \<or> i = 1 \<or> i = 2 \<or> i = 3 \<Longrightarrow>
   tuple_index [a, b, c, d] i = Inr (if i = 0 then a else if i = 1 then b else if i = 2 then c else d)"
  by (auto simp: tuple_index_def)

lemma measurement_mode_result:
  "measurement_mode s =
     (Inr (if committed_measurement_mode s = STANDBY then ''STANDBY'' else ''READY''),
      emit (ReadBits POWER_CTL 1 3) s)"
  using field_1bit [of "regs s" POWER_CTL 3]
  by (simp add: measurement_mode_def read_bits_def committed_measurement_mode_def
      tuple_index_bit STANDBY_def)

lemma resolution_mode_result:
  "resolution_mode s =
     (Inr (if committed_resolution_mode s = LOW_RES then ''LOW_RES'' else ''HIGH_RES''),
      emit (ReadBits DATA_FORMAT 1 3) s)"
  using field_1bit [of "regs s" DATA_FORMAT 3]
  by (simp add: resolution_mode_def read_bits_def committed_resolution_mode_def
      tuple_index_bit LOW_RES_def)

lemma acceleration_range_result:
  "acceleration_range s =
     (Inr (if committed_range s = RANGE_2 then ''RANGE_2''
           else if committed_range s = RANGE_4 then ''RANGE_4''
           else if committed_range s = RANGE_8 then ''RANGE_8'' else ''RANGE_16''),
      emit (ReadBits DATA_FORMAT 2 0) s)"
  using field_2bit [of "regs s" DATA_FORMAT 0]
  by (simp add: acceleration_range_def read_bits_def committed_range_def
      tuple_index_two_bits RANGE_2_def RANGE_4_def RANGE_8_def)

section \<open>The cache invariant\<close>



section \<open>The setter of the acceleration range\<close>

text \<open>
  Claim C3. For every accepted range value (RANGE_2, RANGE_4, RANGE_8, RANGE_16) the
  setter returns normally and sets the resolution cache to the table value of the new
  range when the committed resolution mode is LOW_RES, and to 0.004 when it is HIGH_RES.
  Its effects are, in this order: the read of the resolution mode bit, the assignment to
  the cache, the write of the range bits. The cache update happens before the bus write,
  and the resolution mode bit is left as it was.
\<close>

theorem set_acceleration_range_accepted:
  assumes "i \<in> {RANGE_2, RANGE_4, RANGE_8, RANGE_16}"
  shows "\<exists>c. spec_resolution (committed_resolution_mode s) i = Some c \<and>
     fst (set_acceleration_range (PyInt i) s) = Inr () \<and>
     cached_resolution (snd (set_acceleration_range (PyInt i) s)) = Some c \<and>
     effects s (snd (set_acceleration_range (PyInt i) s)) =
       [ReadBits DATA_FORMAT 1 3, CacheSet c, WriteBits DATA_FORMAT 2 0 i] \<and>
     happens_before is_cache_set is_bus_write
       (effects s (snd (set_acceleration_range (PyInt i) s))) \<and>
     committed_range (snd (set_acceleration_range (PyInt i) s)) = i \<and>
     committed_resolution_mode (snd (set_acceleration_range (PyInt i) s)) =
       committed_resolution_mode s"
proof -
  from assms have i: "i = 0 \<or> i = 1 \<or> i = 2 \<or> i = 3"
    by (auto simp: consts_defs)
  then have m: "i mod 4 = i" by auto
  show ?thesis
  proof (cases "committed_resolution_mode s = 0")
    case True
    from res_values_at_defined [OF i] obtain c
      where c: "res_values_at (PyInt i) = Inr c" by blast
    then have "spec_resolution LOW_RES i = Some c"
      by (simp add: res_values_at_spec [OF i])
    then show ?thesis
      unfolding set_acceleration_range_low [OF i True c]
      using True
      by (intro exI [of _ c])
         (simp add: committed_write_range m LOW_RES_def happens_before_def)
  next
    case False
    then have h: "committed_resolution_mode s = 1"
      using committed_resolution_mode_cases [of s] by simp
    show ?thesis
      unfolding set_acceleration_range_high [OF i False]
      by (intro exI [of _ "0.004"])
         (simp add: committed_write_range m h spec_resolution_high happens_before_def)
  qed
qed

theorem set_acceleration_range_accepted_witness:
  "RANGE_16 \<in> {RANGE_2, RANGE_4, RANGE_8, RANGE_16} \<and>
   committed_resolution_mode
     \<lparr>regs = \<lambda>a. 0, cached_resolution = Some 0.004, log = []\<rparr> = LOW_RES \<and>
   fst (set_acceleration_range (PyInt RANGE_16)
     \<lparr>regs = \<lambda>a. 0, cached_resolution = Some 0.004, log = []\<rparr>) = Inr () \<and>
   cached_resolution (snd (set_acceleration_range (PyInt RANGE_16)
     \<lparr>regs = \<lambda>a. 0, cached_resolution = Some 0.004, log = []\<rparr>)) = Some 0.031 \<and>
   effects \<lparr>regs = \<lambda>a. 0, cached_resolution = Some 0.004, log = []\<rparr>
     (snd (set_acceleration_range (PyInt RANGE_16)
       \<lparr>regs = \<lambda>a. 0, cached_resolution = Some 0.004, log = []\<rparr>)) =
     [ReadBits DATA_FORMAT 1 3, CacheSet 0.031, WriteBits DATA_FORMAT 2 0 RANGE_16]"
proof -
  have h: "RANGE_16 \<in> {RANGE_2, RANGE_4, RANGE_8, RANGE_16}"
    by simp
  have m: "committed_resolution_mode
     \<lparr>regs = \<lambda>a. 0, cached_resolution = Some 0.004, log = []\<rparr> = LOW_RES"
    by code_simp
  from set_acceleration_range_accepted [OF h] obtain c where
    c: "spec_resolution (committed_resolution_mode
          \<lparr>regs = \<lambda>a. 0, cached_resolution = Some 0.004, log = []\<rparr>) RANGE_16 = Some c"
    and r: "fst (set_acceleration_range (PyInt RANGE_16)
          \<lparr>regs = \<lambda>a. 0, cached_resolution = Some 0.004, log = []\<rparr>) = Inr ()"
      "cached_resolution (snd (set_acceleration_range (PyInt RANGE_16)
          \<lparr>regs = \<lambda>a. 0, cached_resolution = Some 0.004, log = []\<rparr>)) = Some c"
      "effects \<lparr>regs = \<lambda>a. 0, cached_resolution = Some 0.004, log = []\<rparr>
         (snd (set_acceleration_range (PyInt RANGE_16)
           \<lparr>regs = \<lambda>a. 0, cached_resolution = Some 0.004, log = []\<rparr>)) =
       [ReadBits DATA_FORMAT 1 3, CacheSet c, WriteBits DATA_FORMAT 2 0 RANGE_16]"
    by blast
  from c have "c = 0.031"
    unfolding m by (simp add: spec_resolution_def consts_defs)
  with h m r show ?thesis
    by blast
qed

section \<open>The setter of the resolution mode\<close>

text \<open>
  Claim C4. For every accepted resolution mode the setter returns normally; LOW_RES sets
  the cache to the table value of the range committed on the device, which the setter
  leaves unchanged, and HIGH_RES sets the cache to 0.004 whatever the range is. Switching
  from HIGH_RES to LOW_RES while the range is RANGE_8 gives a cache of 0.016.
\<close>

theorem set_resolution_mode_accepted:
  assumes "i \<in> {LOW_RES, HIGH_RES}"
  shows "\<exists>c. spec_resolution i (committed_range s) = Some c \<and>
     (i = HIGH_RES \<longrightarrow> c = 0.004) \<and>
     fst (set_resolution_mode (PyInt i) s) = Inr () \<and>
     cached_resolution (snd (set_resolution_mode (PyInt i) s)) = Some c \<and>
     committed_resolution_mode (snd (set_resolution_mode (PyInt i) s)) = i \<and>
     committed_range (snd (set_resolution_mode (PyInt i) s)) = committed_range s"
proof -
  from assms consider "i = 0" | "i = 1"
    by (auto simp: consts_defs)
  then show ?thesis
  proof cases
    case 1
    from res_values_at_defined [OF committed_range_cases [of s]] obtain c
      where c: "res_values_at (PyInt (committed_range s)) = Inr c" by blast
    then have "spec_resolution LOW_RES (committed_range s) = Some c"
      by (simp add: res_values_at_spec [OF committed_range_cases])
    then show ?thesis
      unfolding 1 set_resolution_mode_low [OF c]
      by (intro exI [of _ c]) (simp add: committed_write_mode_Suc LOW_RES_def HIGH_RES_def)
  next
    case 2
    show ?thesis
      unfolding 2 set_resolution_mode_high
      by (intro exI [of _ "0.004"])
         (simp add: committed_write_mode_Suc spec_resolution_high HIGH_RES_def)
  qed
qed

theorem set_resolution_mode_accepted_witness:
  "LOW_RES \<in> {LOW_RES, HIGH_RES} \<and>
   committed_resolution_mode
     \<lparr>regs = (\<lambda>a. 0)(DATA_FORMAT := 0x0A), cached_resolution = Some 0.004, log = []\<rparr> = HIGH_RES \<and>
   committed_range
     \<lparr>regs = (\<lambda>a. 0)(DATA_FORMAT := 0x0A), cached_resolution = Some 0.004, log = []\<rparr> = RANGE_8 \<and>
   cached_resolution (snd (set_resolution_mode (PyInt LOW_RES)
     \<lparr>regs = (\<lambda>a. 0)(DATA_FORMAT := 0x0A), cached_resolution = Some 0.004, log = []\<rparr>)) = Some 0.016"
proof -
  have h: "LOW_RES \<in> {LOW_RES, HIGH_RES}"
    by simp
  have m: "committed_resolution_mode
     \<lparr>regs = (\<lambda>a. 0)(DATA_FORMAT := 0x0A), cached_resolution = Some 0.004, log = []\<rparr> = HIGH_RES"
    by code_simp
  have r: "committed_range
     \<lparr>regs = (\<lambda>a. 0)(DATA_FORMAT := 0x0A), cached_resolution = Some 0.004, log = []\<rparr> = RANGE_8"
    by code_simp
  from set_resolution_mode_accepted [OF h] obtain c where
    "spec_resolution LOW_RES (committed_range
       \<lparr>regs = (\<lambda>a. 0)(DATA_FORMAT := 0x0A), cached_resolution = Some 0.004, log = []\<rparr>) = Some c"
    "cached_resolution (snd (set_resolution_mode (PyInt LOW_RES)
       \<lparr>regs = (\<lambda>a. 0)(DATA_FORMAT := 0x0A), cached_resolution = Some 0.004, log = []\<rparr>)) = Some c"
    by blast
  then have "cached_resolution (snd (set_resolution_mode (PyInt LOW_RES)
       \<lparr>regs = (\<lambda>a. 0)(DATA_FORMAT := 0x0A), cached_resolution = Some 0.004, log = []\<rparr>)) = Some 0.016"
    unfolding r by (simp add: spec_resolution_def consts_defs)
  with h m r show ?thesis
    by blast
qed




section \<open>Construction\<close>

text \<open>
  Claim C5. When the identity register reads 0xE5, the constructor succeeds and its
  effects are, in this order: the identity read, the write of measurement mode READY,
  the write of resolution mode HIGH_RES, the assignment of 0.004 to the resolution cache.
  There is no other bus write: of the register file only bit 3 of POWER_CTL and bit 3 of
  DATA_FORMAT are set, and the range bits stay as the device had them.
\<close>

theorem init_success_effects:
  assumes "regs s REG_WHOAMI = 0xE5"
  shows "fst (init s) = Inr () \<and>
     effects s (snd (init s)) =
       [ReadBlock REG_WHOAMI 1, WriteBits POWER_CTL 1 3 READY,
        WriteBits DATA_FORMAT 1 3 HIGH_RES, CacheSet 0.004] \<and>
     cached_resolution (snd (init s)) = Some 0.004 \<and>
     regs (snd (init s)) =
       (regs s)(POWER_CTL := set_bit 3 (regs s POWER_CTL),
                DATA_FORMAT := set_bit 3 (regs s DATA_FORMAT)) \<and>
     committed_measurement_mode (snd (init s)) = READY \<and>
     committed_resolution_mode (snd (init s)) = HIGH_RES \<and>
     committed_range (snd (init s)) = committed_range s"
  unfolding init_succeeds [OF assms]
  by (simp add: committed_write_mode_Suc committed_measurement_write [unfolded One_nat_def]
      DATA_FORMAT_neq_POWER_CTL regs_write_bits set_bit_field_one committed_write_power_ctl
      READY_def HIGH_RES_def)

theorem init_success_effects_witness:
  "regs (fresh ((\<lambda>a. 0)(REG_WHOAMI := 0xE5))) REG_WHOAMI = 0xE5 \<and>
   (fst (init (fresh ((\<lambda>a. 0)(REG_WHOAMI := 0xE5)))) = Inr () \<and>
     effects (fresh ((\<lambda>a. 0)(REG_WHOAMI := 0xE5))) (snd (init (fresh ((\<lambda>a. 0)(REG_WHOAMI := 0xE5))))) =
       [ReadBlock REG_WHOAMI 1, WriteBits POWER_CTL 1 3 READY,
        WriteBits DATA_FORMAT 1 3 HIGH_RES, CacheSet 0.004] \<and>
     cached_resolution (snd (init (fresh ((\<lambda>a. 0)(REG_WHOAMI := 0xE5))))) = Some 0.004 \<and>
     regs (snd (init (fresh ((\<lambda>a. 0)(REG_WHOAMI := 0xE5))))) =
       (regs (fresh ((\<lambda>a. 0)(REG_WHOAMI := 0xE5))))(POWER_CTL := set_bit 3 (regs (fresh ((\<lambda>a. 0)(REG_WHOAMI := 0xE5))) POWER_CTL),
                DATA_FORMAT := set_bit 3 (regs (fresh ((\<lambda>a. 0)(REG_WHOAMI := 0xE5))) DATA_FORMAT)) \<and>
     committed_measurement_mode (snd (init (fresh ((\<lambda>a. 0)(REG_WHOAMI := 0xE5))))) = READY \<and>
     committed_resolution_mode (snd (init (fresh ((\<lambda>a. 0)(REG_WHOAMI := 0xE5))))) = HIGH_RES \<and>
     committed_range (snd (init (fresh ((\<lambda>a. 0)(REG_WHOAMI := 0xE5))))) = committed_range (fresh ((\<lambda>a. 0)(REG_WHOAMI := 0xE5))))"
proof -
  have h: "regs (fresh ((\<lambda>a. 0)(REG_WHOAMI := 0xE5))) REG_WHOAMI = 0xE5"
    by (simp add: fresh_def)
  from h init_success_effects [OF h] show ?thesis
    by (rule conjI)
qed

text \<open>
  Claim C6. Construction fails with the error "Failed to find ADXL343" exactly when the
  identity register reads a byte other than 0xE5, and succeeds otherwise. When it fails,
  the identity read is its only effect: no register is written and the resolution cache
  of the object is never assigned, so there is no usable driver.
\<close>

theorem init_device_not_found:
  "(fst (init s) = Inl (RuntimeError ''Failed to find ADXL343'')) = (regs s REG_WHOAMI \<noteq> 0xE5) \<and>
   (fst (init s) = Inr ()) = (regs s REG_WHOAMI = 0xE5) \<and>
   (regs s REG_WHOAMI \<noteq> 0xE5 \<longrightarrow>
      effects s (snd (init s)) = [ReadBlock REG_WHOAMI 1] \<and>
      regs (snd (init s)) = regs s \<and>
      cached_resolution (snd (init s)) = cached_resolution s)"
  by (cases "regs s REG_WHOAMI = 0xE5") (simp_all add: init_fails init_succeeds)

theorem init_device_not_found_witness:
  "regs (fresh (\<lambda>a. 0)) REG_WHOAMI \<noteq> 0xE5 \<and>
   fst (init (fresh (\<lambda>a. 0))) = Inl (RuntimeError ''Failed to find ADXL343'') \<and>
   effects (fresh (\<lambda>a. 0)) (snd (init (fresh (\<lambda>a. 0)))) = [ReadBlock REG_WHOAMI 1] \<and>
   regs (snd (init (fresh (\<lambda>a. 0)))) = (\<lambda>a. 0) \<and>
   cached_resolution (snd (init (fresh (\<lambda>a. 0)))) = None"
  using init_device_not_found [of "fresh (\<lambda>a. 0)"]
  by (simp add: fresh_def)

section \<open>Values outside the domain of a setting\<close>

text \<open>
  Claim C7. Each of the three setters raises its ValueError exactly when the value is
  outside the declared domain of the setting, and returns normally otherwise. When it
  raises, the state is the one it was called in: no event is logged, so the bus has not
  been used, and the registers and the resolution cache are unchanged.
\<close>

theorem setters_reject_outside_domain:
  "(fst (set_measurement_mode v s) =
       Inl (ValueError ''Value must be a valid measurement_mode setting''))
     = (v \<notin> {PyInt STANDBY, PyInt READY}) \<and>
   (fst (set_measurement_mode v s) = Inr ()) = (v \<in> {PyInt STANDBY, PyInt READY}) \<and>
   (v \<notin> {PyInt STANDBY, PyInt READY} \<longrightarrow> snd (set_measurement_mode v s) = s) \<and>
   (fst (set_resolution_mode v s) =
       Inl (ValueError ''Value must be a valid resolution_mode setting''))
     = (v \<notin> {PyInt LOW_RES, PyInt HIGH_RES}) \<and>
   (fst (set_resolution_mode v s) = Inr ()) = (v \<in> {PyInt LOW_RES, PyInt HIGH_RES}) \<and>
   (v \<notin> {PyInt LOW_RES, PyInt HIGH_RES} \<longrightarrow> snd (set_resolution_mode v s) = s) \<and>
   (fst (set_acceleration_range v s) =
       Inl (ValueError ''Value must be a valid acceleration_range setting''))
     = (v \<notin> {PyInt RANGE_2, PyInt RANGE_4, PyInt RANGE_8, PyInt RANGE_16}) \<and>
   (fst (set_acceleration_range v s) = Inr ())
     = (v \<in> {PyInt RANGE_2, PyInt RANGE_4, PyInt RANGE_8, PyInt RANGE_16}) \<and>
   (v \<notin> {PyInt RANGE_2, PyInt RANGE_4, PyInt RANGE_8, PyInt RANGE_16} \<longrightarrow>
      snd (set_acceleration_range v s) = s)"
  unfolding domains [symmetric]
    set_measurement_mode_fst set_resolution_mode_fst set_acceleration_range_fst
  by (simp add: set_measurement_mode_rejects set_resolution_mode_rejects
      set_acceleration_range_rejects)

theorem setters_reject_outside_domain_witness:
  "PyInt 7 \<notin> {PyInt STANDBY, PyInt READY} \<and>
   PyInt 7 \<notin> {PyInt LOW_RES, PyInt HIGH_RES} \<and>
   PyInt 7 \<notin> {PyInt RANGE_2, PyInt RANGE_4, PyInt RANGE_8, PyInt RANGE_16} \<and>
   fst (set_measurement_mode (PyInt 7) \<lparr>regs = \<lambda>a. 0, cached_resolution = Some 0.004, log = []\<rparr>) =
     Inl (ValueError ''Value must be a valid measurement_mode setting'') \<and>
   snd (set_measurement_mode (PyInt 7) \<lparr>regs = \<lambda>a. 0, cached_resolution = Some 0.004, log = []\<rparr>) = \<lparr>regs = \<lambda>a. 0, cached_resolution = Some 0.004, log = []\<rparr> \<and>
   fst (set_resolution_mode (PyInt 7) \<lparr>regs = \<lambda>a. 0, cached_resolution = Some 0.004, log = []\<rparr>) =
     Inl (ValueError ''Value must be a valid resolution_mode setting'') \<and>
   snd (set_resolution_mode (PyInt 7) \<lparr>regs = \<lambda>a. 0, cached_resolution = Some 0.004, log = []\<rparr>) = \<lparr>regs = \<lambda>a. 0, cached_resolution = Some 0.004, log = []\<rparr> \<and>
   fst (set_acceleration_range (PyInt 7) \<lparr>regs = \<lambda>a. 0, cached_resolution = Some 0.004, log = []\<rparr>) =
     Inl (ValueError ''Value must be a valid acceleration_range setting'') \<and>
   snd (set_acceleration_range (PyInt 7) \<lparr>regs = \<lambda>a. 0, cached_resolution = Some 0.004, log = []\<rparr>) = \<lparr>regs = \<lambda>a. 0, cached_resolution = Some 0.004, log = []\<rparr>"
  using setters_reject_outside_domain [of "PyInt 7" "\<lparr>regs = \<lambda>a. 0, cached_resolution = Some 0.004, log = []\<rparr>"]
  by (simp add: consts_defs)

section \<open>Reading the acceleration\<close>



section \<open>Setting a setting to its current value\<close>



section \<open>Getters return names that the setters reject\<close>

text \<open>
  Claim C10. In every state each getter returns the name of the committed value as a
  string (STANDBY or READY, LOW_RES or HIGH_RES, RANGE_2 to RANGE_16), not the integer
  constant, and the corresponding setter called with that string raises its ValueError
  and changes nothing: reading a setting and writing it back never succeeds.
\<close>

theorem getters_return_names_setters_reject_them:
  "(\<exists>n. fst (measurement_mode s) = Inr n \<and>
        n = (if committed_measurement_mode s = STANDBY then ''STANDBY'' else ''READY'') \<and>
        set_measurement_mode (PyStr n) (snd (measurement_mode s)) =
          (Inl (ValueError ''Value must be a valid measurement_mode setting''),
           snd (measurement_mode s))) \<and>
   (\<exists>n. fst (resolution_mode s) = Inr n \<and>
        n = (if committed_resolution_mode s = LOW_RES then ''LOW_RES'' else ''HIGH_RES'') \<and>
        set_resolution_mode (PyStr n) (snd (resolution_mode s)) =
          (Inl (ValueError ''Value must be a valid resolution_mode setting''),
           snd (resolution_mode s))) \<and>
   (\<exists>n. fst (acceleration_range s) = Inr n \<and>
        n = (if committed_range s = RANGE_2 then ''RANGE_2''
             else if committed_range s = RANGE_4 then ''RANGE_4''
             else if committed_range s = RANGE_8 then ''RANGE_8'' else ''RANGE_16'') \<and>
        set_acceleration_range (PyStr n) (snd (acceleration_range s)) =
          (Inl (ValueError ''Value must be a valid acceleration_range setting''),
           snd (acceleration_range s)))"
  unfolding measurement_mode_result resolution_mode_result acceleration_range_result
  by (simp add: set_measurement_mode_rejects set_resolution_mode_rejects
      set_acceleration_range_rejects)

theorem getters_return_names_setters_reject_them_witness:
  "fst (measurement_mode \<lparr>regs = (\<lambda>a. 0)(POWER_CTL := 0x08, DATA_FORMAT := 0x0A), cached_resolution = Some 0.004, log = []\<rparr>) = Inr ''READY'' \<and>
   fst (set_measurement_mode (PyStr ''READY'') (snd (measurement_mode \<lparr>regs = (\<lambda>a. 0)(POWER_CTL := 0x08, DATA_FORMAT := 0x0A), cached_resolution = Some 0.004, log = []\<rparr>))) =
     Inl (ValueError ''Value must be a valid measurement_mode setting'') \<and>
   fst (resolution_mode \<lparr>regs = (\<lambda>a. 0)(POWER_CTL := 0x08, DATA_FORMAT := 0x0A), cached_resolution = Some 0.004, log = []\<rparr>) = Inr ''HIGH_RES'' \<and>
   fst (set_resolution_mode (PyStr ''HIGH_RES'') (snd (resolution_mode \<lparr>regs = (\<lambda>a. 0)(POWER_CTL := 0x08, DATA_FORMAT := 0x0A), cached_resolution = Some 0.004, log = []\<rparr>))) =
     Inl (ValueError ''Value must be a valid resolution_mode setting'') \<and>
   fst (acceleration_range \<lparr>regs = (\<lambda>a. 0)(POWER_CTL := 0x08, DATA_FORMAT := 0x0A), cached_resolution = Some 0.004, log = []\<rparr>) = Inr ''RANGE_8'' \<and>
   fst (set_acceleration_range (PyStr ''RANGE_8'') (snd (acceleration_range \<lparr>regs = (\<lambda>a. 0)(POWER_CTL := 0x08, DATA_FORMAT := 0x0A), cached_resolution = Some 0.004, log = []\<rparr>))) =
     Inl (ValueError ''Value must be a valid acceleration_range setting'')"
proof -
  have m: "committed_measurement_mode \<lparr>regs = (\<lambda>a. 0)(POWER_CTL := 0x08, DATA_FORMAT := 0x0A), cached_resolution = Some 0.004, log = []\<rparr> = READY"
    by code_simp
  have r: "committed_resolution_mode \<lparr>regs = (\<lambda>a. 0)(POWER_CTL := 0x08, DATA_FORMAT := 0x0A), cached_resolution = Some 0.004, log = []\<rparr> = HIGH_RES"
    by code_simp
  have g: "committed_range \<lparr>regs = (\<lambda>a. 0)(POWER_CTL := 0x08, DATA_FORMAT := 0x0A), cached_resolution = Some 0.004, log = []\<rparr> = RANGE_8"
    by code_simp
  from getters_return_names_setters_reject_them [of "\<lparr>regs = (\<lambda>a. 0)(POWER_CTL := 0x08, DATA_FORMAT := 0x0A), cached_resolution = Some 0.004, log = []\<rparr>"]
  show ?thesis
    unfolding m r g
    by (simp add: STANDBY_def READY_def LOW_RES_def HIGH_RES_def
        RANGE_2_def RANGE_4_def RANGE_8_def)
qed

end
